theory Spec2Isabelle
  imports Complex_Main "HOL-Library.Sublist"
begin

section \<open>Data model\<close>

text \<open>
  The module under study is \<^verbatim>\<open>src/context/TransactionContext.tsx\<close>: a React provider
  holding a list of transactions, mirrored to the browser's local storage, with two
  reads (\<^verbatim>\<open>getTransaction\<close>, \<^verbatim>\<open>getClientTransactions\<close>) and three mutations
  (\<^verbatim>\<open>addTransaction\<close>, \<^verbatim>\<open>transferFunds\<close>, \<^verbatim>\<open>deleteTransaction\<close>).

  The declaration of \<^verbatim>\<open>Transaction\<close> lives in \<^verbatim>\<open>../types\<close>; its fields are the ones
  the object literals of \<^verbatim>\<open>transferFunds\<close> write. The three values of \<^verbatim>\<open>type\<close> are a
  datatype; \<^verbatim>\<open>status\<close> stays a string, since the module only ever writes the literal
  \<^verbatim>\<open>'completed'\<close>. Strings are byte lists; the accented letters of the French messages
  are their UTF-8 bytes.

  The module stores and forwards \<^verbatim>\<open>amount\<close> and never computes with it. A JavaScript
  number is a finite number (a \<^typ>\<open>real\<close> here), \<^verbatim>\<open>NaN\<close> or one of the two infinities.
  \<^verbatim>\<open>null\<close> is no number, but it is what \<^verbatim>\<open>JSON.parse\<close> gives back where
  \<^verbatim>\<open>JSON.stringify\<close> had a \<^verbatim>\<open>NaN\<close> or an infinity to write, so the amount of a loaded
  record can be \<^verbatim>\<open>null\<close>.
\<close>

datatype Amount = Number real | NaN | PosInfinity | NegInfinity | Null

text \<open>The test \<^verbatim>\<open>amount < 0\<close> of JavaScript: false on \<^verbatim>\<open>NaN\<close>, and \<^verbatim>\<open>null\<close> counts as 0.\<close>

fun negative :: "Amount \<Rightarrow> bool" where
  "negative (Number r) = (r < 0)"
| "negative NegInfinity = True"
| "negative NaN = False"
| "negative PosInfinity = False"
| "negative Null = False"

fun finiteNumber :: "Amount \<Rightarrow> bool" where
  "finiteNumber (Number r) = True"
| "finiteNumber NaN = False"
| "finiteNumber PosInfinity = False"
| "finiteNumber NegInfinity = False"
| "finiteNumber Null = False"

datatype TransactionType = Deposit | Withdrawal | Transfer

text \<open>
  \<^verbatim>\<open>Omit<Transaction, 'id' | 'date' | 'status'>\<close>, the argument of \<^verbatim>\<open>addTransaction\<close>, is
  the parent record; \<^verbatim>\<open>Transaction\<close> extends it with the three omitted fields. The field
  \<^verbatim>\<open>id\<close> is \<open>id_txn\<close>, as \<open>id\<close> is the identity function of HOL.
\<close>

record TransactionInput =
  clientId :: string
  accountId :: string
  type :: TransactionType
  amount :: Amount
  description :: string
  currency :: string
  recipientAccountId :: "string option"
  recipientClientId :: "string option"

record Transaction = TransactionInput +
  id_txn :: string
  date :: string
  status :: string

text \<open>
  The collaborators are outside the module. What the module does to them is recorded, in
  call order: \<^verbatim>\<open>updateClientBalance(clientId, accountId, amount, isCredit)\<close> of the client
  context and \<^verbatim>\<open>toast.success(message)\<close>.
\<close>

datatype Call =
    UpdateClientBalance string string Amount bool
  | ToastSuccess string

subsection \<open>The storage\<close>

text \<open>
  What \<^verbatim>\<open>JSON.parse\<close> reads from the text \<^verbatim>\<open>JSON.stringify\<close> wrote for a transaction.
  \<^verbatim>\<open>JSON.stringify\<close> writes a finite number as its digits and \<^verbatim>\<open>NaN\<close>, \<^verbatim>\<open>Infinity\<close>,
  \<^verbatim>\<open>-Infinity\<close> and \<^verbatim>\<open>null\<close> as \<^verbatim>\<open>null\<close>; \<^verbatim>\<open>JSON.parse\<close> reads the digits as the number
  and \<^verbatim>\<open>null\<close> as \<^verbatim>\<open>null\<close>. The other fields are strings, read as they were written; an
  absent optional field is not written and is absent again after reading.
\<close>

fun jsonAmount :: "Amount \<Rightarrow> Amount" where
  "jsonAmount (Number r) = Number r"
| "jsonAmount NaN = Null"
| "jsonAmount PosInfinity = Null"
| "jsonAmount NegInfinity = Null"
| "jsonAmount Null = Null"

definition jsonTransaction :: "Transaction \<Rightarrow> Transaction" where
  "jsonTransaction t = t\<lparr>amount := jsonAmount (amount t)\<rparr>"

text \<open>
  The value under the key \<^verbatim>\<open>'volvy-bank-transactions'\<close> of \<^verbatim>\<open>localStorage\<close>, told apart
  by what the load effect does with it: \<open>Missing\<close> when \<^verbatim>\<open>getItem\<close> returns a falsy value
  (\<^verbatim>\<open>null\<close> or the empty string); \<open>Snapshot ts\<close> for a text that \<^verbatim>\<open>JSON.parse\<close> reads as
  the transaction list \<open>ts\<close>; \<open>Garbled\<close> for any content on which the \<^verbatim>\<open>try\<close> block
  throws. \<^verbatim>\<open>setItem\<close> is taken to succeed.
\<close>

datatype Stored = Missing | Snapshot "Transaction list" | Garbled

record ProviderState =
  transactions :: "Transaction list"
  loading :: bool
  error :: "string option"
  localStorage :: Stored
  calls :: "Call list"

section \<open>The provider\<close>

text \<open>The three \<^verbatim>\<open>useState\<close> initial values, over a given content of the storage.\<close>

definition initialState :: "Stored \<Rightarrow> ProviderState" where
  "initialState s =
     \<lparr>transactions = [], loading = True, error = None, localStorage = s, calls = []\<rparr>"

text \<open>
  The callback of \<^verbatim>\<open>setTimeout\<close> in the first effect. \<open>mockTransactions\<close> is the seed
  list of \<^verbatim>\<open>../data/mockData\<close>, a parameter here.
\<close>

definition loadEffect :: "Transaction list \<Rightarrow> ProviderState \<Rightarrow> ProviderState" where
  "loadEffect mockTransactions st =
     (case localStorage st of
        Snapshot ts \<Rightarrow> st\<lparr>transactions := ts, loading := False\<rparr>
      | Missing \<Rightarrow> st\<lparr>transactions := mockTransactions, loading := False\<rparr>
      | Garbled \<Rightarrow> st\<lparr>error := Some ''Failed to load transactions'', loading := False\<rparr>)"

text \<open>
  The body of the second effect: \<^verbatim>\<open>setItem\<close> of \<^verbatim>\<open>JSON.stringify(transactions)\<close>, a text
  that \<^verbatim>\<open>JSON.parse\<close> reads as the list of the records as \<open>jsonTransaction\<close> gives them.
\<close>

definition saveEffect :: "ProviderState \<Rightarrow> ProviderState" where
  "saveEffect st =
     (if \<not> loading st \<and> length (transactions st) > 0
      then st\<lparr>localStorage := Snapshot (map jsonTransaction (transactions st))\<rparr>
      else st)"

text \<open>
  Startup: the load effect ends the loading, so \<^verbatim>\<open>loading\<close>, a dependency of the second
  effect, has changed and the second effect runs after the render.
\<close>

definition startup :: "Transaction list \<Rightarrow> Stored \<Rightarrow> ProviderState" where
  "startup mockTransactions s = saveEffect (loadEffect mockTransactions (initialState s))"

subsection \<open>Reads\<close>

definition getTransaction :: "ProviderState \<Rightarrow> string \<Rightarrow> Transaction option" where
  "getTransaction st i = find (\<lambda>transaction. id_txn transaction = i) (transactions st)"

definition getClientTransactions :: "ProviderState \<Rightarrow> string \<Rightarrow> Transaction list" where
  "getClientTransactions st c =
     filter (\<lambda>transaction. clientId transaction = c) (transactions st)"

subsection \<open>Messages\<close>

definition msgDeposit :: string where
  "msgDeposit = ''D'' @ [CHR 0xC3, CHR 0xA9] @ ''p'' @ [CHR 0xC3, CHR 0xB4] @ ''t effectu''
     @ [CHR 0xC3, CHR 0xA9] @ '' avec succ'' @ [CHR 0xC3, CHR 0xA8] @ ''s!''"

definition msgWithdrawal :: string where
  "msgWithdrawal = ''Retrait effectu'' @ [CHR 0xC3, CHR 0xA9] @ '' avec succ''
     @ [CHR 0xC3, CHR 0xA8] @ ''s!''"

definition msgTransfer :: string where
  "msgTransfer = ''Transfert effectu'' @ [CHR 0xC3, CHR 0xA9] @ '' avec succ''
     @ [CHR 0xC3, CHR 0xA8] @ ''s!''"

definition msgDeleted :: string where
  "msgDeleted = ''Transaction supprim'' @ [CHR 0xC3, CHR 0xA9] @ ''e avec succ''
     @ [CHR 0xC3, CHR 0xA8] @ ''s!''"

subsection \<open>Mutations\<close>

text \<open>
  The handlers. Each takes the state \<open>st\<close> that its \<^verbatim>\<open>setTransactions\<close> updater receives
  as \<^verbatim>\<open>prevTransactions\<close>. \<^verbatim>\<open>getNewId('t')\<close> (of \<^verbatim>\<open>../data/mockData\<close>) and
  \<^verbatim>\<open>format(new Date(), 'yyyy-MM-dd HH:mm:ss')\<close> are calls out of the module: what they
  return is an argument of the handler (\<open>newId\<close>, \<open>now\<close>).
\<close>

definition addTransaction ::
  "TransactionInput \<Rightarrow> string \<Rightarrow> string \<Rightarrow> ProviderState \<Rightarrow> ProviderState" where
  "addTransaction transaction newId now st =
     (let newTransaction =
        \<lparr>clientId = clientId transaction, accountId = accountId transaction,
         type = type transaction, amount = amount transaction,
         description = description transaction, currency = currency transaction,
         recipientAccountId = recipientAccountId transaction,
         recipientClientId = recipientClientId transaction,
         id_txn = newId, date = now, status = ''completed''\<rparr>
      in st\<lparr>transactions := transactions st @ [newTransaction],
            calls := calls st @
              [UpdateClientBalance (clientId newTransaction) (accountId newTransaction)
                 (amount newTransaction) (type newTransaction = Deposit),
               ToastSuccess (if type newTransaction = Deposit then msgDeposit
                             else msgWithdrawal)]\<rparr>)"

definition transferFunds ::
  "string \<Rightarrow> string \<Rightarrow> string \<Rightarrow> string \<Rightarrow> Amount \<Rightarrow> string \<Rightarrow> string \<Rightarrow>
   string \<Rightarrow> string \<Rightarrow> string \<Rightarrow> string \<Rightarrow> ProviderState \<Rightarrow> ProviderState" where
  "transferFunds fromClientId fromAccountId toClientId toAccountId amt descr cur
       withdrawalId withdrawalNow depositId depositNow st =
     (let withdrawalTransaction =
        \<lparr>clientId = fromClientId, accountId = fromAccountId, type = Transfer,
         amount = amt, description = ''Transfert vers '' @ descr, currency = cur,
         recipientAccountId = Some toAccountId, recipientClientId = Some toClientId,
         id_txn = withdrawalId, date = withdrawalNow, status = ''completed''\<rparr>;
          depositTransaction =
        \<lparr>clientId = toClientId, accountId = toAccountId, type = Transfer,
         amount = amt,
         description = ''Transfert re'' @ [CHR 0xC3, CHR 0xA7] @ ''u de '' @ descr,
         currency = cur,
         recipientAccountId = Some fromAccountId, recipientClientId = Some fromClientId,
         id_txn = depositId, date = depositNow, status = ''completed''\<rparr>
      in st\<lparr>transactions := transactions st @ [withdrawalTransaction, depositTransaction],
            calls := calls st @
              [UpdateClientBalance fromClientId fromAccountId amt False,
               UpdateClientBalance toClientId toAccountId amt True,
               ToastSuccess msgTransfer]\<rparr>)"

text \<open>
  \<^verbatim>\<open>deleteTransaction\<close> reads the collection twice, from two places. The lookup of line 141
  is in \<^verbatim>\<open>transactions\<close>, the list of the render whose closure the handler is
  (\<open>rendered\<close>); the filter of lines 152 to 154 is on \<^verbatim>\<open>prevTransactions\<close>, the list of
  the pending state (\<open>st\<close>). For the first call after a render the two are the same list;
  for a second call out of the same render they are not.
\<close>

definition deleteTransaction ::
  "ProviderState \<Rightarrow> string \<Rightarrow> ProviderState \<Rightarrow> ProviderState" where
  "deleteTransaction rendered i st =
     (case find (\<lambda>t. id_txn t = i) (transactions rendered) of
        None \<Rightarrow> st
      | Some transaction \<Rightarrow>
          st\<lparr>transactions := filter (\<lambda>transaction. id_txn transaction \<noteq> i) (transactions st),
             calls := calls st @
               [UpdateClientBalance (clientId transaction) (accountId transaction)
                  (amount transaction) (type transaction \<noteq> Deposit),
                ToastSuccess msgDeleted]\<rparr>)"

subsection \<open>Renders\<close>

datatype Operation =
    AddTransaction TransactionInput string string
  | TransferFunds string string string string Amount string string string string string string
  | DeleteTransaction string

fun handler :: "ProviderState \<Rightarrow> Operation \<Rightarrow> ProviderState \<Rightarrow> ProviderState" where
  "handler rendered (AddTransaction transaction newId now) st =
     addTransaction transaction newId now st"
| "handler rendered (TransferFunds fc fa tc ta amt descr cur wid wnow did dnow) st =
     transferFunds fc fa tc ta amt descr cur wid wnow did dnow st"
| "handler rendered (DeleteTransaction i) st = deleteTransaction rendered i st"

text \<open>The calls made out of one render, in order: all hold the closure of that render.\<close>

fun handleAll :: "ProviderState \<Rightarrow> Operation list \<Rightarrow> ProviderState \<Rightarrow> ProviderState" where
  "handleAll rendered [] st = st"
| "handleAll rendered (oper # opers) st = handleAll rendered opers (handler rendered oper st)"

text \<open>
  Whether a call reaches \<^verbatim>\<open>setTransactions\<close>. The updaters build a new array (a spread or
  a \<^verbatim>\<open>filter\<close>), so after such a call the state holds another array, whatever is in it.
\<close>

fun setsTransactions :: "ProviderState \<Rightarrow> Operation \<Rightarrow> bool" where
  "setsTransactions rendered (AddTransaction transaction newId now) = True"
| "setsTransactions rendered (TransferFunds fc fa tc ta amt descr cur wid wnow did dnow) = True"
| "setsTransactions rendered (DeleteTransaction i) =
     (find (\<lambda>t. id_txn t = i) (transactions rendered) \<noteq> None)"

text \<open>
  One cycle from a committed state: the calls made out of its render, then the next
  render, after which React runs the second effect if \<^verbatim>\<open>transactions\<close>, its dependency,
  is another array (the handlers leave \<^verbatim>\<open>loading\<close> alone). One user action is the cycle
  of one call.
\<close>

definition perform :: "Operation list \<Rightarrow> ProviderState \<Rightarrow> ProviderState" where
  "perform opers st =
     (if list_ex (setsTransactions st) opers
      then saveEffect (handleAll st opers st)
      else handleAll st opers st)"

fun performAll :: "Operation list list \<Rightarrow> ProviderState \<Rightarrow> ProviderState" where
  "performAll [] st = st"
| "performAll (opers # cycles) st = performAll cycles (perform opers st)"

text \<open>The amount an operation hands to the module, if it hands one.\<close>

fun amountOf :: "Operation \<Rightarrow> Amount option" where
  "amountOf (AddTransaction transaction newId now) = Some (amount transaction)"
| "amountOf (TransferFunds fc fa tc ta amt descr cur wid wnow did dnow) = Some amt"
| "amountOf (DeleteTransaction i) = None"

subsection \<open>Sample data\<close>

definition sampleDeposit :: TransactionInput where
  "sampleDeposit =
     \<lparr>clientId = ''C1'', accountId = ''A1'', type = Deposit, amount = Number 100,
      description = ''salary'', currency = ''HTG'',
      recipientAccountId = None, recipientClientId = None\<rparr>"

definition sampleWithdrawal :: TransactionInput where
  "sampleWithdrawal =
     \<lparr>clientId = ''C2'', accountId = ''A2'', type = Withdrawal, amount = Number 30,
      description = ''cash'', currency = ''HTG'',
      recipientAccountId = None, recipientClientId = None\<rparr>"

definition sampleRefund :: TransactionInput where
  "sampleRefund =
     \<lparr>clientId = ''C1'', accountId = ''A1'', type = Deposit, amount = Number (- 5),
      description = ''refund'', currency = ''HTG'',
      recipientAccountId = None, recipientClientId = None\<rparr>"

definition sampleUnpriced :: TransactionInput where
  "sampleUnpriced =
     \<lparr>clientId = ''C2'', accountId = ''A2'', type = Deposit, amount = NaN,
      description = ''gift'', currency = ''HTG'',
      recipientAccountId = None, recipientClientId = None\<rparr>"

definition stored :: "TransactionInput \<Rightarrow> string \<Rightarrow> string \<Rightarrow> Transaction" where
  "stored transaction i d =
     \<lparr>clientId = clientId transaction, accountId = accountId transaction,
      type = type transaction, amount = amount transaction,
      description = description transaction, currency = currency transaction,
      recipientAccountId = recipientAccountId transaction,
      recipientClientId = recipientClientId transaction,
      id_txn = i, date = d, status = ''completed''\<rparr>"

text \<open>The provider once the load effect has read the snapshot \<open>ts\<close>.\<close>

definition ready :: "Transaction list \<Rightarrow> ProviderState" where
  "ready ts = startup [] (Snapshot ts)"

definition sampleDate :: string where
  "sampleDate = ''2024-05-01 09:00:00''"

text \<open>A ledger in which the id \<^verbatim>\<open>t1\<close> occurs twice.\<close>

definition sampleLedger :: "Transaction list" where
  "sampleLedger =
     [stored sampleDeposit ''t1'' sampleDate,
      stored sampleWithdrawal ''t2'' sampleDate,
      stored sampleRefund ''t1'' sampleDate]"

section \<open>Properties\<close>

subsection \<open>Selectors\<close>

lemma initialState_sel [simp]:
  "transactions (initialState s) = []"
  "loading (initialState s)"
  "error (initialState s) = None"
  "localStorage (initialState s) = s"
  "calls (initialState s) = []"
  by (simp_all add: initialState_def)

lemma saveEffect_sel [simp]:
  "transactions (saveEffect st) = transactions st"
  "loading (saveEffect st) = loading st"
  "error (saveEffect st) = error st"
  "calls (saveEffect st) = calls st"
  by (simp_all add: saveEffect_def)

lemma handler_sel [simp]:
  "loading (handler rendered oper st) = loading st"
  "error (handler rendered oper st) = error st"
  "localStorage (handler rendered oper st) = localStorage st"
  by (cases oper;
      simp add: addTransaction_def transferFunds_def deleteTransaction_def Let_def
        split: option.split)+

lemma handleAll_sel [simp]:
  "loading (handleAll rendered opers st) = loading st"
  "error (handleAll rendered opers st) = error st"
  "localStorage (handleAll rendered opers st) = localStorage st"
  by (induction opers arbitrary: st; simp)+

lemma perform_sel:
  "transactions (perform opers st) = transactions (handleAll st opers st)"
  "calls (perform opers st) = calls (handleAll st opers st)"
  "error (perform opers st) = error st"
  "loading (perform opers st) = loading st"
  by (simp_all add: perform_def)

lemma handler_idle:
  "\<not> setsTransactions rendered oper \<Longrightarrow> handler rendered oper st = st"
  by (cases oper) (simp_all add: deleteTransaction_def)

lemma handleAll_idle:
  "\<not> list_ex (setsTransactions rendered) opers \<Longrightarrow> handleAll rendered opers st = st"
  by (induction opers arbitrary: st) (simp_all add: handler_idle)

lemma find_id_None: "find (\<lambda>t. id_txn t = i) ts = None \<longleftrightarrow> i \<notin> id_txn ` set ts"
  by (auto simp: find_None_iff)

lemma find_first_match:
  "\<forall>u \<in> set xs. \<not> P u \<Longrightarrow> P t \<Longrightarrow> find P (xs @ t # ys) = Some t"
  by (induction xs) auto

lemma find_Some_mem: "find P ts = Some t \<Longrightarrow> t \<in> set ts \<and> P t"
  by (induction ts) (auto split: if_splits)

lemma jsonAmount_Number: "jsonAmount a = a \<longleftrightarrow> (\<exists>r. a = Number r) \<or> a = Null"
  by (cases a) simp_all

lemma ready_sel [simp]:
  "transactions (ready ts) = ts"
  "\<not> loading (ready ts)"
  "error (ready ts) = None"
  "calls (ready ts) = []"
  "localStorage (ready ts) = Snapshot (map jsonTransaction ts)"
  by (simp_all add: ready_def startup_def saveEffect_def loadEffect_def)

lemma startup_Snapshot [simp]: "transactions (startup mock (Snapshot ts)) = ts"
  by (simp add: startup_def loadEffect_def)

lemma sample_json [simp]:
  "jsonTransaction (stored sampleDeposit i d) = stored sampleDeposit i d"
  "jsonTransaction (stored sampleWithdrawal i d) = stored sampleWithdrawal i d"
  "jsonTransaction (stored sampleRefund i d) = stored sampleRefund i d"
  by (simp_all add: jsonTransaction_def stored_def sampleDeposit_def sampleWithdrawal_def
      sampleRefund_def)

lemma handler_amounts:
  assumes "\<forall>t \<in> set (transactions st). \<not> negative (amount t)"
    and "\<forall>a. amountOf oper = Some a \<longrightarrow> \<not> negative a"
  shows "\<forall>t \<in> set (transactions (handler rendered oper st)). \<not> negative (amount t)"
proof (cases oper)
  case (AddTransaction inp newId now)
  with assms show ?thesis by (auto simp: addTransaction_def Let_def)
next
  case (TransferFunds fc fa tc ta amt descr cur wid wnow did dnow)
  with assms show ?thesis by (auto simp: transferFunds_def Let_def)
next
  case (DeleteTransaction i)
  with assms show ?thesis by (auto simp: deleteTransaction_def split: option.split)
qed

lemma handleAll_amounts:
  "\<forall>t \<in> set (transactions st). \<not> negative (amount t) \<Longrightarrow>
   \<forall>oper \<in> set opers. \<forall>a. amountOf oper = Some a \<longrightarrow> \<not> negative a \<Longrightarrow>
   \<forall>t \<in> set (transactions (handleAll rendered opers st)). \<not> negative (amount t)"
proof (induction opers arbitrary: st)
  case Nil
  then show ?case by simp
next
  case (Cons oper opers)
  have "\<forall>t \<in> set (transactions (handler rendered oper st)). \<not> negative (amount t)"
    using handler_amounts [of st oper rendered] Cons.prems by simp
  then show ?case using Cons.IH [of "handler rendered oper st"] Cons.prems by simp
qed

lemma performAll_amounts:
  "\<forall>t \<in> set (transactions st). \<not> negative (amount t) \<Longrightarrow>
   \<forall>opers \<in> set cycles. \<forall>oper \<in> set opers. \<forall>a. amountOf oper = Some a \<longrightarrow> \<not> negative a \<Longrightarrow>
   \<forall>t \<in> set (transactions (performAll cycles st)). \<not> negative (amount t)"
proof (induction cycles arbitrary: st)
  case Nil
  then show ?case by simp
next
  case (Cons opers cycles)
  have "\<forall>t \<in> set (transactions (perform opers st)). \<not> negative (amount t)"
    using handleAll_amounts [of st opers st] Cons.prems by (simp add: perform_sel)
  then show ?case using Cons.IH [of "perform opers st"] Cons.prems by simp
qed

subsection \<open>Reads\<close>

text \<open>
  Claim C5. \<^verbatim>\<open>getClientTransactions(c)\<close> is the collection restricted to the positions
  whose record has client \<open>c\<close>, in the collection's order, and is empty when no record
  matches; it reads the collection and nothing else, so two calls on states with the same
  collection agree. \<^verbatim>\<open>getTransaction(id)\<close> gives a record of the collection with that id,
  or nothing when the collection has none; neither read has an error outcome.
\<close>

theorem reads_answer:
  "getClientTransactions st c =
     nths (transactions st)
       {k. k < length (transactions st) \<and> clientId (transactions st ! k) = c}
   \<and> ((\<forall>t \<in> set (transactions st). clientId t \<noteq> c) \<longrightarrow>
        getClientTransactions st c = [])
   \<and> (transactions st' = transactions st \<longrightarrow>
        getClientTransactions st' c = getClientTransactions st c)
   \<and> (case getTransaction st i of
        Some t \<Rightarrow> t \<in> set (transactions st) \<and> id_txn t = i
      | None \<Rightarrow> \<forall>t \<in> set (transactions st). id_txn t \<noteq> i)"
proof -
  have "getClientTransactions st c =
     nths (transactions st)
       {k. k < length (transactions st) \<and> clientId (transactions st ! k) = c}"
    unfolding getClientTransactions_def by (rule filter_eq_nths)
  moreover have "(\<forall>t \<in> set (transactions st). clientId t \<noteq> c) \<longrightarrow>
      getClientTransactions st c = []"
    by (simp add: getClientTransactions_def)
  moreover have "transactions st' = transactions st \<longrightarrow>
        getClientTransactions st' c = getClientTransactions st c"
    by (simp add: getClientTransactions_def)
  moreover have "case getTransaction st i of
        Some t \<Rightarrow> t \<in> set (transactions st) \<and> id_txn t = i
      | None \<Rightarrow> \<forall>t \<in> set (transactions st). id_txn t \<noteq> i"
    by (auto simp: getTransaction_def find_None_iff split: option.split dest: find_Some_mem)
  ultimately show ?thesis by blast
qed

theorem reads_answer_witness:
  "''C9'' \<notin> clientId ` set (transactions (ready sampleLedger))
   \<and> getClientTransactions (ready sampleLedger) ''C9'' = []
   \<and> transactions (initialState Missing\<lparr>transactions := sampleLedger\<rparr>) =
       transactions (ready sampleLedger)
   \<and> getClientTransactions (initialState Missing\<lparr>transactions := sampleLedger\<rparr>) ''C9'' = []
   \<and> getClientTransactions (ready sampleLedger) ''C1'' =
       [stored sampleDeposit ''t1'' sampleDate, stored sampleRefund ''t1'' sampleDate]
   \<and> getTransaction (ready sampleLedger) ''t2'' =
       Some (stored sampleWithdrawal ''t2'' sampleDate)
   \<and> getTransaction (ready sampleLedger) ''t7'' = None"
  using reads_answer [of "ready sampleLedger" "''C9''"
      "initialState Missing\<lparr>transactions := sampleLedger\<rparr>" "''t2''"]
    reads_answer [of "ready sampleLedger" "''C1''" "ready sampleLedger" "''t7''"]
  by (simp add: sampleLedger_def stored_def sampleDeposit_def sampleWithdrawal_def
      sampleRefund_def getTransaction_def getClientTransactions_def)

subsection \<open>Deleting\<close>

text \<open>
  Claim C2. When the collection the handler looks the id up in has a record with id \<open>i\<close>,
  \<^verbatim>\<open>deleteTransaction(i)\<close> calls \<^verbatim>\<open>updateClientBalance\<close> once, with the client, account
  and amount of the record it found and with \<^verbatim>\<open>isCredit\<close> true exactly when the record is
  not a deposit, and the new collection is the pending one without the records of id
  \<open>i\<close>. For the first call after a render, \<open>rendered\<close> and \<open>st\<close> are the same state.
\<close>

theorem deleteTransaction_present:
  assumes "i \<in> id_txn ` set (transactions rendered)"
  shows "\<exists>t. getTransaction rendered i = Some t \<and> t \<in> set (transactions rendered)
     \<and> id_txn t = i
     \<and> calls (deleteTransaction rendered i st) = calls st @
          [UpdateClientBalance (clientId t) (accountId t) (amount t) (type t \<noteq> Deposit),
           ToastSuccess msgDeleted]
     \<and> transactions (deleteTransaction rendered i st) =
          filter (\<lambda>u. id_txn u \<noteq> i) (transactions st)
     \<and> i \<notin> id_txn ` set (transactions (deleteTransaction rendered i st))"
proof -
  from assms obtain t where f: "find (\<lambda>t. id_txn t = i) (transactions rendered) = Some t"
    using find_id_None [of i "transactions rendered"]
    by (cases "find (\<lambda>t. id_txn t = i) (transactions rendered)") auto
  then have m: "t \<in> set (transactions rendered) \<and> id_txn t = i"
    by (auto dest: find_Some_mem)
  from f show ?thesis using m
    by (auto simp: getTransaction_def deleteTransaction_def)
qed

theorem deleteTransaction_present_witness:
  "''t2'' \<in> id_txn ` set (transactions (ready sampleLedger))
   \<and> getTransaction (ready sampleLedger) ''t2'' =
       Some (stored sampleWithdrawal ''t2'' sampleDate)
   \<and> calls (deleteTransaction (ready sampleLedger) ''t2'' (ready sampleLedger)) =
       [UpdateClientBalance ''C2'' ''A2'' (Number 30) True, ToastSuccess msgDeleted]
   \<and> transactions (deleteTransaction (ready sampleLedger) ''t2'' (ready sampleLedger)) =
       [stored sampleDeposit ''t1'' sampleDate, stored sampleRefund ''t1'' sampleDate]"
  using deleteTransaction_present [of "''t2''" "ready sampleLedger" "ready sampleLedger"]
  by (simp add: sampleLedger_def stored_def sampleDeposit_def sampleWithdrawal_def
      sampleRefund_def getTransaction_def deleteTransaction_def)

text \<open>
  Claim C10. With \<open>t\<close> the first record of id \<open>i\<close> in the collection, whatever follows
  it: \<^verbatim>\<open>getTransaction(i)\<close> is \<open>t\<close>; \<^verbatim>\<open>deleteTransaction(i)\<close> makes one balance call,
  from the fields of \<open>t\<close>, and removes every record of id \<open>i\<close>.
\<close>

theorem duplicates_first_match:
  assumes "transactions rendered = xs @ t # ys" and "id_txn t = i"
    and "\<forall>u \<in> set xs. id_txn u \<noteq> i"
  shows "getTransaction rendered i = Some t
     \<and> calls (deleteTransaction rendered i st) = calls st @
          [UpdateClientBalance (clientId t) (accountId t) (amount t) (type t \<noteq> Deposit),
           ToastSuccess msgDeleted]
     \<and> transactions (deleteTransaction rendered i st) =
          filter (\<lambda>u. id_txn u \<noteq> i) (transactions st)
     \<and> transactions (deleteTransaction rendered i rendered) =
          xs @ filter (\<lambda>u. id_txn u \<noteq> i) ys
     \<and> (\<forall>u \<in> set (transactions (deleteTransaction rendered i st)). id_txn u \<noteq> i)"
proof -
  have f: "find (\<lambda>u. id_txn u = i) (transactions rendered) = Some t"
    using assms by (simp add: find_first_match)
  have x: "filter (\<lambda>u. id_txn u \<noteq> i) xs = xs"
    using assms(3) by (simp add: filter_id_conv)
  show ?thesis using f x assms
    by (auto simp: getTransaction_def deleteTransaction_def)
qed

theorem duplicates_first_match_witness:
  "transactions (ready sampleLedger) =
     [] @ stored sampleDeposit ''t1'' sampleDate #
       [stored sampleWithdrawal ''t2'' sampleDate, stored sampleRefund ''t1'' sampleDate]
   \<and> id_txn (stored sampleDeposit ''t1'' sampleDate) = ''t1''
   \<and> id_txn (stored sampleRefund ''t1'' sampleDate) = ''t1''
   \<and> getTransaction (ready sampleLedger) ''t1'' = Some (stored sampleDeposit ''t1'' sampleDate)
   \<and> calls (deleteTransaction (ready sampleLedger) ''t1'' (ready sampleLedger)) =
        [UpdateClientBalance ''C1'' ''A1'' (Number 100) False, ToastSuccess msgDeleted]
   \<and> transactions (deleteTransaction (ready sampleLedger) ''t1'' (ready sampleLedger)) =
        [stored sampleWithdrawal ''t2'' sampleDate]"
  using duplicates_first_match [of "ready sampleLedger" "[]"
      "stored sampleDeposit ''t1'' sampleDate"
      "[stored sampleWithdrawal ''t2'' sampleDate, stored sampleRefund ''t1'' sampleDate]"
      "''t1''" "ready sampleLedger"]
  by (simp add: sampleLedger_def stored_def sampleDeposit_def)

text \<open>
  Claim C4, amended. When the collection of the render the handler comes from has no
  record with id \<open>i\<close>, \<^verbatim>\<open>deleteTransaction(i)\<close> returns the state as it was: same
  collection, same error field, no call to the balance adjuster, no toast, no write to
  the storage. A second delete of the same id, made after the render that follows the
  first, is such a call: the two deletes make the calls of one.
\<close>

theorem deleteTransaction_absent:
  "(i \<notin> id_txn ` set (transactions rendered) \<longrightarrow> deleteTransaction rendered i st = st)
   \<and> (i \<notin> id_txn ` set (transactions st) \<longrightarrow> perform [DeleteTransaction i] st = st)
   \<and> deleteTransaction (deleteTransaction st i st) i (deleteTransaction st i st) =
       deleteTransaction st i st
   \<and> perform [DeleteTransaction i] (perform [DeleteTransaction i] st) =
       perform [DeleteTransaction i] st
   \<and> (\<forall>t. getTransaction st i = Some t \<longrightarrow>
        calls (perform [DeleteTransaction i] (perform [DeleteTransaction i] st)) =
          calls st @
            [UpdateClientBalance (clientId t) (accountId t) (amount t) (type t \<noteq> Deposit),
             ToastSuccess msgDeleted])"
proof -
  have absent: "deleteTransaction r i s = s" if "i \<notin> id_txn ` set (transactions r)" for r s
  proof -
    from that have "find (\<lambda>t. id_txn t = i) (transactions r) = None"
      by (simp add: find_id_None)
    then show ?thesis by (simp add: deleteTransaction_def)
  qed
  have idle: "perform [DeleteTransaction i] s = s"
    if "i \<notin> id_txn ` set (transactions s)" for s
    using that absent [of s s] by (simp add: perform_def find_id_None)
  have gone: "i \<notin> id_txn ` set (transactions (deleteTransaction s i s))" for s
    by (auto simp: deleteTransaction_def find_None_iff split: option.split)
  have twice: "deleteTransaction (deleteTransaction st i st) i (deleteTransaction st i st) =
       deleteTransaction st i st"
    using absent [OF gone] .
  have gone': "i \<notin> id_txn ` set (transactions (perform [DeleteTransaction i] st))"
    using gone [of st] by (simp add: perform_sel)
  have twice': "perform [DeleteTransaction i] (perform [DeleteTransaction i] st) =
       perform [DeleteTransaction i] st"
    using idle [OF gone'] .
  have "calls (perform [DeleteTransaction i] (perform [DeleteTransaction i] st)) =
          calls st @
            [UpdateClientBalance (clientId t) (accountId t) (amount t) (type t \<noteq> Deposit),
             ToastSuccess msgDeleted]" if "getTransaction st i = Some t" for t
    using that by (simp add: twice' perform_sel getTransaction_def deleteTransaction_def)
  with absent [of rendered st] idle [of st] twice twice' show ?thesis by blast
qed

theorem deleteTransaction_absent_witness:
  "''t7'' \<notin> id_txn ` set (transactions (ready sampleLedger))
   \<and> deleteTransaction (ready sampleLedger) ''t7'' (ready sampleLedger) = ready sampleLedger
   \<and> perform [DeleteTransaction ''t7''] (ready sampleLedger) = ready sampleLedger
   \<and> getTransaction (ready sampleLedger) ''t2'' =
       Some (stored sampleWithdrawal ''t2'' sampleDate)
   \<and> calls (perform [DeleteTransaction ''t2'']
        (perform [DeleteTransaction ''t2''] (ready sampleLedger))) =
       [UpdateClientBalance ''C2'' ''A2'' (Number 30) True, ToastSuccess msgDeleted]"
proof -
  have a: "''t7'' \<notin> id_txn ` set (transactions (ready sampleLedger))"
    by (simp add: sampleLedger_def stored_def)
  have g: "getTransaction (ready sampleLedger) ''t2'' =
      Some (stored sampleWithdrawal ''t2'' sampleDate)"
    by (simp add: sampleLedger_def stored_def getTransaction_def)
  from a deleteTransaction_absent [of "''t7''" "ready sampleLedger" "ready sampleLedger"]
  have n: "deleteTransaction (ready sampleLedger) ''t7'' (ready sampleLedger) =
        ready sampleLedger
     \<and> perform [DeleteTransaction ''t7''] (ready sampleLedger) = ready sampleLedger"
    by blast
  from g deleteTransaction_absent [of "''t2''" "ready sampleLedger" "ready sampleLedger"]
  have "calls (perform [DeleteTransaction ''t2'']
          (perform [DeleteTransaction ''t2''] (ready sampleLedger))) =
        calls (ready sampleLedger) @
          [UpdateClientBalance (clientId (stored sampleWithdrawal ''t2'' sampleDate))
             (accountId (stored sampleWithdrawal ''t2'' sampleDate))
             (amount (stored sampleWithdrawal ''t2'' sampleDate))
             (type (stored sampleWithdrawal ''t2'' sampleDate) \<noteq> Deposit),
           ToastSuccess msgDeleted]"
    by blast
  then have "calls (perform [DeleteTransaction ''t2'']
          (perform [DeleteTransaction ''t2''] (ready sampleLedger))) =
       [UpdateClientBalance ''C2'' ''A2'' (Number 30) True, ToastSuccess msgDeleted]"
    by (simp add: stored_def sampleWithdrawal_def)
  with a g n show ?thesis by blast
qed

text \<open>
  Claim C4 as stated fails for two deletes of one id made out of the same render: the
  second call finds the record in the list of its closure, although the pending
  collection has lost it, and makes a second balance call and a second toast.
\<close>

theorem deleteTransaction_twice_counterexample:
  "''t2'' \<notin> id_txn ` set (transactions
       (deleteTransaction (ready sampleLedger) ''t2'' (ready sampleLedger)))
   \<and> calls (deleteTransaction (ready sampleLedger) ''t2''
       (deleteTransaction (ready sampleLedger) ''t2'' (ready sampleLedger))) =
     [UpdateClientBalance ''C2'' ''A2'' (Number 30) True, ToastSuccess msgDeleted,
      UpdateClientBalance ''C2'' ''A2'' (Number 30) True, ToastSuccess msgDeleted]
   \<and> calls (perform [DeleteTransaction ''t2'', DeleteTransaction ''t2'']
       (ready sampleLedger)) =
     [UpdateClientBalance ''C2'' ''A2'' (Number 30) True, ToastSuccess msgDeleted,
      UpdateClientBalance ''C2'' ''A2'' (Number 30) True, ToastSuccess msgDeleted]"
  by (simp add: perform_sel deleteTransaction_def sampleLedger_def stored_def
      sampleWithdrawal_def)

subsection \<open>Adding and transferring\<close>

text \<open>
  Claim C3, amended. For every input, id and timestamp, \<^verbatim>\<open>addTransaction\<close> appends one
  record at the end of the collection: the input's fields, the id \<^verbatim>\<open>getNewId\<close> returned,
  the timestamp as date and the status \<^verbatim>\<open>'completed'\<close>. It calls \<^verbatim>\<open>updateClientBalance\<close>
  once, with the input's client, account and amount and with \<^verbatim>\<open>isCredit\<close> true exactly
  for a deposit. Nothing is checked: not the amount, the account or the funds, and not
  the id against the ids of the collection. The new record is the only one of its id
  exactly when the collection had no record of that id, and the ids of the new
  collection are distinct exactly when those of the old one were and the id is new.
\<close>

theorem addTransaction_appends:
  "\<exists>t. transactions (addTransaction inp newId now st) = transactions st @ [t]
     \<and> id_txn t = newId \<and> date t = now \<and> status t = ''completed''
     \<and> clientId t = clientId inp \<and> accountId t = accountId inp \<and> type t = type inp
     \<and> amount t = amount inp \<and> description t = description inp
     \<and> currency t = currency inp
     \<and> recipientAccountId t = recipientAccountId inp
     \<and> recipientClientId t = recipientClientId inp
     \<and> calls (addTransaction inp newId now st) =
          calls st @
            [UpdateClientBalance (clientId inp) (accountId inp) (amount inp)
               (type inp = Deposit),
             ToastSuccess (if type inp = Deposit then msgDeposit else msgWithdrawal)]
     \<and> (filter (\<lambda>u. id_txn u = newId) (transactions (addTransaction inp newId now st)) = [t])
         = (newId \<notin> id_txn ` set (transactions st))
     \<and> distinct (map id_txn (transactions (addTransaction inp newId now st)))
         = (distinct (map id_txn (transactions st))
            \<and> newId \<notin> id_txn ` set (transactions st))"
proof -
  have "(filter (\<lambda>u. id_txn u = newId) (transactions st) = []) =
      (newId \<notin> id_txn ` set (transactions st))"
    by (auto simp: filter_empty_conv)
  then show ?thesis
    by (auto simp: addTransaction_def Let_def)
qed

theorem addTransaction_appends_witness:
  "transactions (addTransaction sampleRefund ''t3'' sampleDate (ready sampleLedger)) =
       sampleLedger @ [stored sampleRefund ''t3'' sampleDate]
   \<and> calls (addTransaction sampleRefund ''t3'' sampleDate (ready sampleLedger)) =
       [UpdateClientBalance ''C1'' ''A1'' (Number (- 5)) True, ToastSuccess msgDeposit]
   \<and> ''t3'' \<notin> id_txn ` set (transactions (ready sampleLedger))
   \<and> filter (\<lambda>u. id_txn u = ''t3'')
        (transactions (addTransaction sampleRefund ''t3'' sampleDate (ready sampleLedger))) =
       [stored sampleRefund ''t3'' sampleDate]"
  using addTransaction_appends [of sampleRefund "''t3''" sampleDate "ready sampleLedger"]
  by (auto simp: sampleLedger_def stored_def sampleRefund_def addTransaction_def)

text \<open>
  Claim C3 as stated fails where it says the id is unique among the existing ids: the
  handler takes the id \<^verbatim>\<open>getNewId\<close> returns as it is. With an id the collection already
  has, the collection holds two records of that id, and \<^verbatim>\<open>getTransaction\<close> of the id
  answers the old one.
\<close>

theorem addTransaction_used_id_counterexample:
  "map id_txn (transactions (addTransaction sampleWithdrawal ''t1'' sampleDate
       (ready [stored sampleDeposit ''t1'' sampleDate]))) = [''t1'', ''t1'']
   \<and> \<not> distinct (map id_txn (transactions (addTransaction sampleWithdrawal ''t1'' sampleDate
       (ready [stored sampleDeposit ''t1'' sampleDate]))))
   \<and> getTransaction (addTransaction sampleWithdrawal ''t1'' sampleDate
       (ready [stored sampleDeposit ''t1'' sampleDate])) ''t1'' =
     Some (stored sampleDeposit ''t1'' sampleDate)"
  by (simp add: addTransaction_def stored_def getTransaction_def)

text \<open>
  Claim C1. For every call, \<^verbatim>\<open>transferFunds\<close> appends two records, the sender's first
  and the recipient's second: both of type transfer and status \<^verbatim>\<open>'completed'\<close>, with the
  amount and currency of the call, each naming the other side's client and account as
  its recipient. It calls \<^verbatim>\<open>updateClientBalance\<close> twice: a debit of the sender's account,
  then a credit of the recipient's.
\<close>

theorem transferFunds_two_records:
  "\<exists>w d. transactions (transferFunds fc fa tc ta amt descr cur wid wnow did dnow st) =
            transactions st @ [w, d]
     \<and> type w = Transfer \<and> type d = Transfer
     \<and> status w = ''completed'' \<and> status d = ''completed''
     \<and> amount w = amt \<and> amount d = amt \<and> currency w = cur \<and> currency d = cur
     \<and> clientId w = fc \<and> accountId w = fa
     \<and> recipientClientId w = Some tc \<and> recipientAccountId w = Some ta
     \<and> clientId d = tc \<and> accountId d = ta
     \<and> recipientClientId d = Some fc \<and> recipientAccountId d = Some fa
     \<and> calls (transferFunds fc fa tc ta amt descr cur wid wnow did dnow st) =
          calls st @
            [UpdateClientBalance fc fa amt False, UpdateClientBalance tc ta amt True,
             ToastSuccess msgTransfer]"
  by (simp add: transferFunds_def Let_def)

theorem transferFunds_two_records_witness:
  "map clientId (transactions (transferFunds ''C1'' ''A1'' ''C2'' ''A2'' (Number 50) ''rent''
       ''HTG'' ''t8'' sampleDate ''t9'' sampleDate (ready sampleLedger))) =
     [''C1'', ''C2'', ''C1'', ''C1'', ''C2'']
   \<and> map recipientClientId (transactions (transferFunds ''C1'' ''A1'' ''C2'' ''A2''
       (Number 50) ''rent'' ''HTG'' ''t8'' sampleDate ''t9'' sampleDate
       (ready sampleLedger))) =
     [None, None, None, Some ''C2'', Some ''C1'']
   \<and> calls (transferFunds ''C1'' ''A1'' ''C2'' ''A2'' (Number 50) ''rent'' ''HTG''
       ''t8'' sampleDate ''t9'' sampleDate (ready sampleLedger)) =
     [UpdateClientBalance ''C1'' ''A1'' (Number 50) False,
      UpdateClientBalance ''C2'' ''A2'' (Number 50) True,
      ToastSuccess msgTransfer]"
  using transferFunds_two_records [of "''C1''" "''A1''" "''C2''" "''A2''" "Number 50"
      "''rent''" "''HTG''" "''t8''" sampleDate "''t9''" sampleDate "ready sampleLedger"]
  by (auto simp: sampleLedger_def stored_def sampleDeposit_def sampleWithdrawal_def
      sampleRefund_def)

subsection \<open>The collection keeps its order\<close>

text \<open>
  Claim C9. \<^verbatim>\<open>addTransaction\<close> and \<^verbatim>\<open>transferFunds\<close> leave the collection as it was and
  put one, respectively two, records after it. \<^verbatim>\<open>deleteTransaction\<close> leaves the records
  at the positions whose id is another one, as they were and in their order. No
  operation rewrites a record. A \<^verbatim>\<open>deleteTransaction\<close> from an older render does the
  same, or leaves the collection as it is.
\<close>

theorem append_ordered:
  "(\<exists>t. transactions (perform [AddTransaction inp newId now] st) = transactions st @ [t])
   \<and> (\<exists>w d. transactions
          (perform [TransferFunds fc fa tc ta amt descr cur wid wnow did dnow] st)
          = transactions st @ [w, d])
   \<and> transactions (perform [DeleteTransaction i] st) =
       nths (transactions st)
         {k. k < length (transactions st) \<and> id_txn (transactions st ! k) \<noteq> i}
   \<and> subseq (transactions (perform [DeleteTransaction i] st)) (transactions st)
   \<and> subseq (transactions (deleteTransaction rendered i st)) (transactions st)
   \<and> (transactions (deleteTransaction rendered i st) = transactions st
      \<or> transactions (deleteTransaction rendered i st) =
          nths (transactions st)
            {k. k < length (transactions st) \<and> id_txn (transactions st ! k) \<noteq> i})"
proof -
  have d: "transactions (deleteTransaction st i st) =
      filter (\<lambda>u. id_txn u \<noteq> i) (transactions st)"
    by (auto simp: deleteTransaction_def find_None_iff filter_id_conv split: option.split)
  have r: "transactions (deleteTransaction rendered i st) = transactions st
      \<or> transactions (deleteTransaction rendered i st) =
          filter (\<lambda>u. id_txn u \<noteq> i) (transactions st)"
    by (simp add: deleteTransaction_def split: option.split)
  have "transactions (perform [DeleteTransaction i] st) =
       nths (transactions st)
         {k. k < length (transactions st) \<and> id_txn (transactions st ! k) \<noteq> i}"
    by (simp add: perform_sel d filter_eq_nths)
  moreover have "subseq (transactions (perform [DeleteTransaction i] st)) (transactions st)"
    by (simp add: perform_sel d)
  moreover have "subseq (transactions (deleteTransaction rendered i st)) (transactions st)"
    using r by auto
  moreover have "transactions (deleteTransaction rendered i st) = transactions st
      \<or> transactions (deleteTransaction rendered i st) =
          nths (transactions st)
            {k. k < length (transactions st) \<and> id_txn (transactions st ! k) \<noteq> i}"
    using r by (simp add: filter_eq_nths)
  moreover have "\<exists>t. transactions (perform [AddTransaction inp newId now] st) =
      transactions st @ [t]"
    by (simp add: perform_sel addTransaction_def Let_def)
  moreover have "\<exists>w d. transactions
          (perform [TransferFunds fc fa tc ta amt descr cur wid wnow did dnow] st)
          = transactions st @ [w, d]"
    by (simp add: perform_sel transferFunds_def Let_def)
  ultimately show ?thesis by blast
qed

theorem append_ordered_witness:
  "transactions (perform [AddTransaction sampleDeposit ''t3'' sampleDate]
       (ready sampleLedger)) =
     sampleLedger @ [stored sampleDeposit ''t3'' sampleDate]
   \<and> map id_txn (transactions (perform
        [TransferFunds ''C1'' ''A1'' ''C2'' ''A2'' (Number 50) ''rent'' ''HTG''
           ''t8'' sampleDate ''t9'' sampleDate] (ready sampleLedger))) =
       map id_txn sampleLedger @ [''t8'', ''t9'']
   \<and> transactions (perform [DeleteTransaction ''t2''] (ready sampleLedger)) =
       [stored sampleDeposit ''t1'' sampleDate, stored sampleRefund ''t1'' sampleDate]
   \<and> transactions (deleteTransaction (ready sampleLedger) ''t2'' (ready [])) = []"
  using append_ordered [of sampleDeposit "''t3''" sampleDate "ready sampleLedger"
      "''C1''" "''A1''" "''C2''" "''A2''" "Number 50" "''rent''" "''HTG''" "''t8''" sampleDate
      "''t9''" sampleDate "''t2''" "ready sampleLedger"]
  by (simp add: perform_sel addTransaction_def transferFunds_def deleteTransaction_def
      sampleLedger_def stored_def)

subsection \<open>Amounts\<close>

text \<open>
  Claim C7, amended. The operations store the amount they are given, without a check of
  its sign. From a state whose records have no negative amount (the initial state has no
  record), operations that are handed no negative amount lead to states whose records
  have no negative amount, whether each call has its own render or several share one.
\<close>

theorem amounts_nonnegative:
  assumes "\<forall>t \<in> set (transactions st). \<not> negative (amount t)"
    and "\<forall>opers \<in> set cycles. \<forall>oper \<in> set opers. \<forall>a. amountOf oper = Some a \<longrightarrow> \<not> negative a"
  shows "\<forall>t \<in> set (transactions (performAll cycles st)). \<not> negative (amount t)"
  using assms by (rule performAll_amounts)

theorem amounts_nonnegative_witness:
  "list_all (\<lambda>t. \<not> negative (amount t)) (transactions (initialState Missing))
   \<and> list_all (list_all (\<lambda>oper. case amountOf oper of None \<Rightarrow> True | Some a \<Rightarrow> \<not> negative a))
       [[AddTransaction sampleDeposit ''t1'' sampleDate],
        [TransferFunds ''C1'' ''A1'' ''C2'' ''A2'' (Number 50) ''rent'' ''HTG''
           ''t8'' sampleDate ''t9'' sampleDate,
         DeleteTransaction ''t1'']]
   \<and> list_all (\<lambda>t. \<not> negative (amount t)) (transactions (performAll
       [[AddTransaction sampleDeposit ''t1'' sampleDate],
        [TransferFunds ''C1'' ''A1'' ''C2'' ''A2'' (Number 50) ''rent'' ''HTG''
           ''t8'' sampleDate ''t9'' sampleDate,
         DeleteTransaction ''t1'']] (initialState Missing)))
   \<and> map amount (transactions (performAll
       [[AddTransaction sampleDeposit ''t1'' sampleDate],
        [TransferFunds ''C1'' ''A1'' ''C2'' ''A2'' (Number 50) ''rent'' ''HTG''
           ''t8'' sampleDate ''t9'' sampleDate,
         DeleteTransaction ''t1'']] (initialState Missing))) = [Number 50, Number 50]"
proof -
  let ?cycles = "[[AddTransaction sampleDeposit ''t1'' sampleDate],
        [TransferFunds ''C1'' ''A1'' ''C2'' ''A2'' (Number 50) ''rent'' ''HTG''
           ''t8'' sampleDate ''t9'' sampleDate,
         DeleteTransaction ''t1'']]"
  have a: "\<forall>t \<in> set (transactions (initialState Missing)). \<not> negative (amount t)" by simp
  have b: "\<forall>opers \<in> set ?cycles. \<forall>oper \<in> set opers.
      \<forall>a. amountOf oper = Some a \<longrightarrow> \<not> negative a"
    by (simp add: sampleDeposit_def)
  have c: "map amount (transactions (performAll ?cycles (initialState Missing))) =
      [Number 50, Number 50]"
    by (simp add: perform_sel addTransaction_def transferFunds_def deleteTransaction_def
        sampleDeposit_def)
  from amounts_nonnegative [OF a b] a b c show ?thesis
    by (simp add: list_all_iff split: option.split)
qed

text \<open>
  Claim C7 as stated fails: \<^verbatim>\<open>addTransaction\<close> with amount \<open>-5\<close>, from the initial state,
  gives a collection whose one record has amount \<open>-5\<close>.
\<close>

theorem amounts_negative_counterexample:
  "map amount (transactions
     (performAll [[AddTransaction sampleRefund ''t1'' sampleDate]] (initialState Missing))) =
     [Number (- 5)]
   \<and> \<not> list_all (\<lambda>t. \<not> negative (amount t)) (transactions
     (performAll [[AddTransaction sampleRefund ''t1'' sampleDate]] (initialState Missing)))"
  by (simp add: perform_sel addTransaction_def sampleRefund_def)

subsection \<open>The snapshot\<close>

lemma jsonTransaction_finite:
  "\<forall>t \<in> set ts. finiteNumber (amount t) \<Longrightarrow> map jsonTransaction ts = ts"
proof (induction ts)
  case Nil
  then show ?case by simp
next
  case (Cons t ts)
  then have "jsonAmount (amount t) = amount t" by (cases "amount t") simp_all
  then have "jsonTransaction t = t" by (simp add: jsonTransaction_def)
  with Cons show ?case by simp
qed

text \<open>
  Claim C6, amended. Once loading has ended, after a cycle that changes the collection and
  leaves it non-empty, the storage holds the text written for the whole new collection,
  and a later startup on that storage loads the collection back record for record and
  field for field, but for an amount that is \<^verbatim>\<open>NaN\<close> or an infinity, which comes back as
  \<^verbatim>\<open>null\<close>. When every amount is a finite number, the loaded collection is equal to the
  saved one.
\<close>

theorem snapshot_after_mutation:
  assumes "\<not> loading st" and "transactions (perform opers st) \<noteq> transactions st"
    and "transactions (perform opers st) \<noteq> []"
  shows "localStorage (perform opers st) =
       Snapshot (map jsonTransaction (transactions (perform opers st)))
     \<and> transactions (startup mock (localStorage (perform opers st))) =
         map jsonTransaction (transactions (perform opers st))
     \<and> ((\<forall>t \<in> set (transactions (perform opers st)). finiteNumber (amount t)) \<longrightarrow>
          transactions (startup mock (localStorage (perform opers st))) =
            transactions (perform opers st))"
proof -
  have "list_ex (setsTransactions st) opers"
  proof (rule ccontr)
    assume "\<not> list_ex (setsTransactions st) opers"
    then have "perform opers st = st" by (simp add: perform_def handleAll_idle)
    with assms(2) show False by simp
  qed
  then have p: "perform opers st = saveEffect (handleAll st opers st)"
    by (simp add: perform_def)
  have n: "transactions (handleAll st opers st) \<noteq> []"
    using assms(3) by (simp add: perform_sel)
  have s: "localStorage (perform opers st) =
       Snapshot (map jsonTransaction (transactions (perform opers st)))"
    using assms(1) n by (simp add: p saveEffect_def)
  then show ?thesis by (simp add: jsonTransaction_finite)
qed

theorem snapshot_after_mutation_witness:
  "\<not> loading (ready sampleLedger)
   \<and> transactions (perform [DeleteTransaction ''t2''] (ready sampleLedger)) \<noteq>
       transactions (ready sampleLedger)
   \<and> transactions (perform [DeleteTransaction ''t2''] (ready sampleLedger)) \<noteq> []
   \<and> list_all (\<lambda>t. finiteNumber (amount t))
       (transactions (perform [DeleteTransaction ''t2''] (ready sampleLedger)))
   \<and> localStorage (perform [DeleteTransaction ''t2''] (ready sampleLedger)) =
       Snapshot [stored sampleDeposit ''t1'' sampleDate, stored sampleRefund ''t1'' sampleDate]
   \<and> transactions (startup []
        (localStorage (perform [DeleteTransaction ''t2''] (ready sampleLedger)))) =
       transactions (perform [DeleteTransaction ''t2''] (ready sampleLedger))"
proof -
  have a: "transactions (perform [DeleteTransaction ''t2''] (ready sampleLedger)) =
      [stored sampleDeposit ''t1'' sampleDate, stored sampleRefund ''t1'' sampleDate]"
    by (simp add: perform_sel deleteTransaction_def sampleLedger_def stored_def)
  have b: "transactions (ready sampleLedger) = sampleLedger" by simp
  have c: "\<not> loading (ready sampleLedger)" by simp
  have d: "transactions (perform [DeleteTransaction ''t2''] (ready sampleLedger)) \<noteq>
       transactions (ready sampleLedger)"
    unfolding a by (simp add: sampleLedger_def)
  have e: "transactions (perform [DeleteTransaction ''t2''] (ready sampleLedger)) \<noteq> []"
    by (simp add: a)
  have f: "\<forall>t \<in> set (transactions (perform [DeleteTransaction ''t2''] (ready sampleLedger))).
      finiteNumber (amount t)"
    by (simp add: a stored_def sampleDeposit_def sampleRefund_def)
  from snapshot_after_mutation [OF c d e, of "[]"] f
  have "localStorage (perform [DeleteTransaction ''t2''] (ready sampleLedger)) =
       Snapshot (map jsonTransaction
         (transactions (perform [DeleteTransaction ''t2''] (ready sampleLedger))))
     \<and> transactions (startup []
        (localStorage (perform [DeleteTransaction ''t2''] (ready sampleLedger)))) =
       transactions (perform [DeleteTransaction ''t2''] (ready sampleLedger))"
    by blast
  with c d e f show ?thesis by (simp add: a list_all_iff)
qed

text \<open>
  Claim C6 as stated fails on the way back: a record added with amount \<^verbatim>\<open>NaN\<close> is written
  with \<^verbatim>\<open>null\<close> for its amount, and the collection loaded from the storage differs from
  the one saved.
\<close>

theorem snapshot_nan_counterexample:
  "map amount (transactions
       (perform [AddTransaction sampleUnpriced ''t3'' sampleDate] (ready sampleLedger))) =
     [Number 100, Number 30, Number (- 5), NaN]
   \<and> map amount (transactions (startup [] (localStorage
       (perform [AddTransaction sampleUnpriced ''t3'' sampleDate] (ready sampleLedger))))) =
     [Number 100, Number 30, Number (- 5), Null]
   \<and> transactions (startup [] (localStorage
       (perform [AddTransaction sampleUnpriced ''t3'' sampleDate] (ready sampleLedger)))) \<noteq>
     transactions
       (perform [AddTransaction sampleUnpriced ''t3'' sampleDate] (ready sampleLedger))"
proof -
  let ?st = "perform [AddTransaction sampleUnpriced ''t3'' sampleDate] (ready sampleLedger)"
  have a: "map amount (transactions ?st) = [Number 100, Number 30, Number (- 5), NaN]"
    by (simp add: perform_sel addTransaction_def sampleLedger_def stored_def
        sampleDeposit_def sampleWithdrawal_def sampleRefund_def sampleUnpriced_def)
  have s: "localStorage ?st = Snapshot (map jsonTransaction (transactions ?st))"
    by (simp add: perform_def saveEffect_def addTransaction_def)
  have b: "map amount (transactions (startup [] (localStorage ?st))) =
      [Number 100, Number 30, Number (- 5), Null]"
    unfolding s
    by (simp add: perform_sel addTransaction_def sampleLedger_def stored_def
        sampleDeposit_def sampleWithdrawal_def sampleRefund_def sampleUnpriced_def
        jsonTransaction_def)
  from a b have "transactions (startup [] (localStorage ?st)) \<noteq> transactions ?st"
    by auto
  with a b show ?thesis by blast
qed

text \<open>
  The save effect does not run on an empty collection, whereas the comment of line 54
  announces a save whenever the collection changes. After the delete of the only record
  the storage still holds that record, and a startup on it loads the record again. The
  statement of claim C6 above is silent about this case.
\<close>

lemma snapshot_kept_when_emptied:
  "transactions (perform [DeleteTransaction ''t1'']
        (ready [stored sampleDeposit ''t1'' sampleDate])) = []
   \<and> localStorage (perform [DeleteTransaction ''t1'']
        (ready [stored sampleDeposit ''t1'' sampleDate])) =
     Snapshot [stored sampleDeposit ''t1'' sampleDate]
   \<and> transactions (startup [] (localStorage (perform [DeleteTransaction ''t1'']
        (ready [stored sampleDeposit ''t1'' sampleDate])))) =
     [stored sampleDeposit ''t1'' sampleDate]"
  by (simp add: perform_def saveEffect_def deleteTransaction_def stored_def
      jsonTransaction_def sampleDeposit_def)

subsection \<open>A failed load\<close>

text \<open>
  Claim C8, amended. When the load effect fails, the error field is set to
  \<^verbatim>\<open>'Failed to load transactions'\<close>, loading ends and the collection stays as it was,
  empty at startup. The reads are not blocked: they look at the collection only, so
  after a failed startup \<^verbatim>\<open>getTransaction\<close> answers nothing and
  \<^verbatim>\<open>getClientTransactions\<close> answers the empty list.
\<close>

theorem load_failure:
  "error (startup mock Garbled) = Some ''Failed to load transactions''
   \<and> \<not> loading (startup mock Garbled)
   \<and> transactions (startup mock Garbled) = []
   \<and> getTransaction (startup mock Garbled) i = None
   \<and> getClientTransactions (startup mock Garbled) c = []
   \<and> (localStorage st = Garbled \<longrightarrow>
        error (loadEffect mock st) = Some ''Failed to load transactions''
        \<and> \<not> loading (loadEffect mock st)
        \<and> getTransaction (loadEffect mock st) i = getTransaction st i
        \<and> getClientTransactions (loadEffect mock st) c = getClientTransactions st c)
   \<and> (transactions st' = transactions st \<longrightarrow>
        getTransaction st' i = getTransaction st i
        \<and> getClientTransactions st' c = getClientTransactions st c)"
  by (simp add: startup_def loadEffect_def getTransaction_def getClientTransactions_def)

theorem load_failure_witness:
  "localStorage (initialState Garbled) = Garbled
   \<and> error (loadEffect [] (initialState Garbled)) = Some ''Failed to load transactions''
   \<and> \<not> loading (loadEffect [] (initialState Garbled))
   \<and> transactions (startup [] Garbled) = transactions (initialState Garbled)
   \<and> getTransaction (startup [] Garbled) ''t1'' = None
   \<and> getClientTransactions (startup [] Garbled) ''C1'' = []"
  using load_failure [of "[]" "''t1''" "''C1''" "initialState Garbled" "startup [] Garbled"]
  by simp

text \<open>
  Claim C8 as stated fails: with the error field set, the reads answer from the empty
  collection, and after an \<^verbatim>\<open>addTransaction\<close> from the collection of that one record.
\<close>

theorem reads_not_blocked_counterexample:
  "error (startup [] Garbled) = Some ''Failed to load transactions''
   \<and> getTransaction (startup [] Garbled) ''t1'' = None
   \<and> getClientTransactions (startup [] Garbled) ''C1'' = []
   \<and> error (perform [AddTransaction sampleDeposit ''t1'' sampleDate] (startup [] Garbled)) =
       Some ''Failed to load transactions''
   \<and> getTransaction
        (perform [AddTransaction sampleDeposit ''t1'' sampleDate] (startup [] Garbled)) ''t1''
      = Some (stored sampleDeposit ''t1'' sampleDate)
   \<and> getClientTransactions
        (perform [AddTransaction sampleDeposit ''t1'' sampleDate] (startup [] Garbled)) ''C1''
      = [stored sampleDeposit ''t1'' sampleDate]"
  by (simp add: startup_def loadEffect_def getTransaction_def getClientTransactions_def
      perform_sel addTransaction_def stored_def sampleDeposit_def)

end
